theory Spec2Isabelle
  imports Main "HOL-Library.Sublist"
begin

section \<open>ADT Pulse adapter entities: alarm control panel and binary sensors\<close>

text \<open>
  A shallow embedding of \<^verbatim>\<open>custom_components/adtpulse/alarm_control_panel.py\<close> and
  \<^verbatim>\<open>custom_components/adtpulse/binary_sensor.py\<close>.

  Conventions of the embedding:
  \<^item> a Python exception is a value of \<open>error\<close>, returned on the left of a sum;
  \<^item> the effects of the code (log records, \<^verbatim>\<open>async_add_entities\<close>,
    \<^verbatim>\<open>async_write_ha_state\<close>, awaiting an operation of the client library) are
    \<open>event\<close>s; an effectful function returns the list of events it emitted, in order,
    next to its result, so that the events emitted before an exception are kept;
  \<^item> a log record keeps its level only: the message texts format objects of the client
    library and are not modelled;
  \<^item> constants imported from the client library (\<^verbatim>\<open>ADT_ALARM_*\<close>,
    \<^verbatim>\<open>STATE_OK\<close>) and the \<^verbatim>\<open>slugify\<close> function are parameters.
\<close>

subsection \<open>External data: zones, sites, the service\<close>

datatype error = ValueError | RuntimeError | KeyError | IndexError | AttributeError

text \<open>
  \<^verbatim>\<open>ADTPulseZoneData\<close>: the source's own comment shows the tags as a sequence,
  \<^verbatim>\<open>'tags': ['sensor', 'motion']\<close>, hence a list.
\<close>

record zone =
  zone_name :: string
  zone_tags :: "string list"
  zone_state :: string

text \<open>
  \<^verbatim>\<open>ADTPulseSite\<close>. \<^verbatim>\<open>zones_as_dict\<close> is a property of the client library, and
  reading it can raise: the client library raises \<^verbatim>\<open>RuntimeError\<close> for a site that
  has no zones. The field holds the outcome of reading the property, the same at every
  read of a run: \<open>Inl e\<close> when the read raises \<open>e\<close>, otherwise \<open>Inr\<close> of an optional
  dictionary from zone id to zone data. The dictionary is an association list in
  insertion order (the order of \<^verbatim>\<open>keys()\<close>), \<open>None\<close> being Python's
  \<^verbatim>\<open>None\<close>. A dictionary has pairwise different keys; no result below depends on
  it.
\<close>

record site =
  site_id :: string
  site_name :: string
  site_status :: string
  zones_as_dict :: "error + (int \<times> zone) list option"

text \<open>\<^verbatim>\<open>PyADTPulse\<close>: the list of sites and the gateway flag.\<close>

record service =
  sites :: "site list"
  gateway_online :: bool

text \<open>The coordinator, of which the code reads the \<^verbatim>\<open>adtpulse\<close> attribute only.\<close>

record coordinator =
  adtpulse :: "service option"

subsection \<open>Platform enumerations\<close>

text \<open>The members of \<^verbatim>\<open>BinarySensorDeviceClass\<close> that the source names.\<close>

datatype device_class =
  CO | DOOR | MOISTURE | GARAGE_DOOR | HEAT | MOTION | SMOKE | TAMPER | WINDOW | CONNECTIVITY

text \<open>The platform's alarm state constants that the source names.\<close>

datatype alarm_state =
  STATE_ALARM_ARMING | STATE_ALARM_ARMED_AWAY | STATE_ALARM_DISARMING
  | STATE_ALARM_ARMED_HOME | STATE_ALARM_DISARMED

text \<open>The vendor's status constants, imported from \<^verbatim>\<open>pyadtpulse.site\<close>.\<close>

record adt_alarm_consts =
  ADT_ALARM_ARMING :: string
  ADT_ALARM_AWAY :: string
  ADT_ALARM_DISARMING :: string
  ADT_ALARM_HOME :: string
  ADT_ALARM_OFF :: string
  ADT_ALARM_UNKNOWN :: string

subsection \<open>Entities and events\<close>

record ADTPulseAlarm =
  alarm_name :: string
  alarm_site :: site

record ADTPulseZoneSensor =
  sensor_site :: site
  sensor_zone_id :: int
  sensor_my_zone :: zone
  sensor_device_class :: device_class

record ADTPulseGatewaySensor =
  gateway_service :: service
  gateway_device_class :: device_class
  gateway_name :: string

datatype entity =
  AlarmEntity ADTPulseAlarm
  | ZoneEntity ADTPulseZoneSensor
  | GatewayEntity ADTPulseGatewaySensor

datatype log_level = DEBUG | INFO | WARNING | ERROR

text \<open>
  The operations of a site that the alarm panel calls. The argument of
  \<open>async_arm_away\<close> is the keyword argument \<^verbatim>\<open>force_arm\<close>: \<open>None\<close> when the call
  passes none, \<open>Some b\<close> for \<^verbatim>\<open>force_arm=b\<close>.
\<close>

datatype site_call = async_disarm | async_arm_home | async_arm_away "bool option"

text \<open>
  \<open>Awaited i c r\<close>: the operation \<open>c\<close> of the site with id \<open>i\<close> was awaited to
  completion and returned \<open>r\<close>.
\<close>

datatype event =
  Log log_level
  | AddEntities "entity list"
  | WriteHAState
  | Awaited string site_call bool

subsection \<open>\<^verbatim>\<open>alarm_control_panel.py\<close>\<close>

text \<open>
  The dictionary literal \<^verbatim>\<open>ALARM_MAP\<close>: the keys are inserted in the order written,
  a later key replacing an equal earlier one. A value is \<open>None\<close> for Python's
  \<^verbatim>\<open>None\<close>.
\<close>

definition ALARM_MAP :: "adt_alarm_consts \<Rightarrow> string \<rightharpoonup> alarm_state option" where
  "ALARM_MAP c =
     [ADT_ALARM_ARMING c \<mapsto> Some STATE_ALARM_ARMING,
      ADT_ALARM_AWAY c \<mapsto> Some STATE_ALARM_ARMED_AWAY,
      ADT_ALARM_DISARMING c \<mapsto> Some STATE_ALARM_DISARMING,
      ADT_ALARM_HOME c \<mapsto> Some STATE_ALARM_ARMED_HOME,
      ADT_ALARM_OFF c \<mapsto> Some STATE_ALARM_DISARMED,
      ADT_ALARM_UNKNOWN c \<mapsto> None]"

text \<open>\<^verbatim>\<open>ADTPulseAlarm.__init__\<close>, with \<^verbatim>\<open>slugify(..., separator="_")\<close> as \<open>slugify\<close>.\<close>

definition ADTPulseAlarm_init :: "(string \<Rightarrow> string) \<Rightarrow> site \<Rightarrow> event list \<times> ADTPulseAlarm" where
  "ADTPulseAlarm_init slugify s =
     ([Log DEBUG], \<lparr>alarm_name = slugify (''ADT '' @ site_name s), alarm_site = s\<rparr>)"

text \<open>The property \<^verbatim>\<open>ADTPulseAlarm.state\<close>.\<close>

definition ADTPulseAlarm_state :: "adt_alarm_consts \<Rightarrow> ADTPulseAlarm \<Rightarrow> alarm_state option" where
  "ADTPulseAlarm_state c a =
     (case ALARM_MAP c (site_status (alarm_site a)) of
        Some v \<Rightarrow> v
      | None \<Rightarrow> None)"

text \<open>
  \<^verbatim>\<open>_perform_alarm_action\<close>. The coroutine argument is a pending call \<open>call\<close> on
  the panel's site; \<open>run s call w\<close> is what awaiting it does to the outside world \<open>w\<close>
  and the boolean it returns. The result is the new world and the events emitted.
\<close>

definition perform_alarm_action ::
  "(site \<Rightarrow> site_call \<Rightarrow> 'w \<Rightarrow> bool \<times> 'w) \<Rightarrow> ADTPulseAlarm \<Rightarrow> site_call \<Rightarrow> string \<Rightarrow> 'w
     \<Rightarrow> 'w \<times> event list" where
  "perform_alarm_action run a call action w =
     (let (r, w') = run (alarm_site a) call w;
          awaited = [Log DEBUG, Awaited (site_id (alarm_site a)) call r]
      in if r then (w', awaited @ [WriteHAState])
         else (w', awaited @ [Log WARNING]))"

definition async_alarm_disarm ::
  "(site \<Rightarrow> site_call \<Rightarrow> 'w \<Rightarrow> bool \<times> 'w) \<Rightarrow> ADTPulseAlarm \<Rightarrow> 'w \<Rightarrow> 'w \<times> event list" where
  "async_alarm_disarm run a = perform_alarm_action run a async_disarm ''disarm''"

definition async_alarm_arm_home ::
  "(site \<Rightarrow> site_call \<Rightarrow> 'w \<Rightarrow> bool \<times> 'w) \<Rightarrow> ADTPulseAlarm \<Rightarrow> 'w \<Rightarrow> 'w \<times> event list" where
  "async_alarm_arm_home run a = perform_alarm_action run a async_arm_home ''arm home''"

definition async_alarm_arm_away ::
  "(site \<Rightarrow> site_call \<Rightarrow> 'w \<Rightarrow> bool \<times> 'w) \<Rightarrow> ADTPulseAlarm \<Rightarrow> 'w \<Rightarrow> 'w \<times> event list" where
  "async_alarm_arm_away run a = perform_alarm_action run a (async_arm_away None) ''arm away''"

definition async_alarm_arm_custom_bypass ::
  "(site \<Rightarrow> site_call \<Rightarrow> 'w \<Rightarrow> bool \<times> 'w) \<Rightarrow> ADTPulseAlarm \<Rightarrow> 'w \<Rightarrow> 'w \<times> event list" where
  "async_alarm_arm_custom_bypass run a =
     perform_alarm_action run a (async_arm_away (Some True)) ''force arm''"

text \<open>The loop of the alarm platform's setup: one panel per site.\<close>

fun alarm_devices :: "(string \<Rightarrow> string) \<Rightarrow> site list \<Rightarrow> event list \<times> ADTPulseAlarm list" where
  "alarm_devices slugify [] = ([], [])"
| "alarm_devices slugify (s # ss) =
     (let (l, a) = ADTPulseAlarm_init slugify s;
          (ls, as) = alarm_devices slugify ss
      in (l @ ls, a # as))"

text \<open>
  \<^verbatim>\<open>async_setup_entry\<close> of the alarm platform. The argument is the coordinator found
  in \<^verbatim>\<open>hass.data\<close>, \<open>None\<close> when it is falsy. The second component is the exception
  that left the function, if any.
\<close>

definition alarm_async_setup_entry ::
  "(string \<Rightarrow> string) \<Rightarrow> coordinator option \<Rightarrow> event list \<times> error option" where
  "alarm_async_setup_entry slugify coord =
     (case coord of
        None \<Rightarrow> ([Log ERROR], None)
      | Some c \<Rightarrow>
          (case adtpulse c of
             None \<Rightarrow> ([], Some AttributeError)
           | Some svc \<Rightarrow>
               if sites svc = [] then ([Log ERROR], None)
               else (let (l, devs) = alarm_devices slugify (sites svc)
                     in (l @ [AddEntities (map AlarmEntity devs)], None))))"

subsection \<open>\<^verbatim>\<open>binary_sensor.py\<close>\<close>

text \<open>
  The dictionary literals, as association lists in the order written. Their keys are
  pairwise different, so a lookup is \<open>map_of\<close>.
\<close>

definition ADT_DEVICE_CLASS_TAG_MAP :: "(string \<times> device_class) list" where
  "ADT_DEVICE_CLASS_TAG_MAP =
     [(''co'', CO),
      (''doorWindow'', DOOR),
      (''flood'', MOISTURE),
      (''garage'', GARAGE_DOOR),
      (''fire'', HEAT),
      (''motion'', MOTION),
      (''smoke'', SMOKE),
      (''glass'', TAMPER)]"

definition ADT_SENSOR_ICON_MAP :: "(device_class \<times> string \<times> string) list" where
  "ADT_SENSOR_ICON_MAP =
     [(CO, ''mdi:molecule-co'', ''mdi:checkbox-marked-circle''),
      (DOOR, ''mdi:door-open'', ''mdi:door''),
      (GARAGE_DOOR, ''mdi:garage-open-variant'', ''mdi:garage-variant''),
      (HEAT, ''mdi:fire'', ''mdi:smoke-detector-variant''),
      (MOISTURE, ''mdi:home-flood'', ''mdi:heat-wave''),
      (MOTION, ''mdi:run-fast'', ''mdi:motion-sensor''),
      (SMOKE, ''mdi:fire'', ''mdi:smoke-detector-variant''),
      (TAMPER, ''mdi:window-open'', ''mdi:window-closed''),
      (WINDOW, ''mdi:window-open-variant'', ''mdi:window-closed-variant'')]"

text \<open>
  \<^verbatim>\<open>_get_my_zone\<close>: an exception of the read of \<^verbatim>\<open>site.zones_as_dict\<close> leaves the
  function; indexing the dictionary raises \<^verbatim>\<open>KeyError\<close> off its keys.
\<close>

definition get_my_zone :: "site \<Rightarrow> int \<Rightarrow> error + zone" where
  "get_my_zone s zid =
     (case zones_as_dict s of
        Inl e \<Rightarrow> Inl e
      | Inr None \<Rightarrow> Inl RuntimeError
      | Inr (Some zs) \<Rightarrow>
          (case map_of zs zid of
             None \<Rightarrow> Inl KeyError
           | Some z \<Rightarrow> Inr z))"

text \<open>
  The loop \<^verbatim>\<open>for tag in tags\<close> of \<^verbatim>\<open>_determine_device_class\<close>: the first tag, in
  the order of the zone's tags, that is a key of the table.
\<close>

fun scan_tags :: "string list \<Rightarrow> device_class option" where
  "scan_tags [] = None"
| "scan_tags (tag # tags) =
     (case map_of ADT_DEVICE_CLASS_TAG_MAP tag of
        Some d \<Rightarrow> Some d
      | None \<Rightarrow> scan_tags tags)"

text \<open>\<^verbatim>\<open>_determine_device_class\<close>. Python's \<^verbatim>\<open>in\<close> on strings is \<open>sublist\<close>.\<close>

definition determine_device_class :: "zone \<Rightarrow> event list \<times> (error + device_class)" where
  "determine_device_class zone_data =
     (let tags = zone_tags zone_data;
          device_class = (if ''sensor'' \<in> set tags then scan_tags tags else None)
      in case device_class of
           None \<Rightarrow> ([Log WARNING], Inl ValueError)
         | Some d \<Rightarrow>
             ([Log INFO],
              Inr (if d = DOOR \<and>
                      (sublist ''Window'' (zone_name zone_data) \<or>
                       sublist ''window'' (zone_name zone_data))
                   then WINDOW else d)))"

text \<open>\<^verbatim>\<open>ADTPulseZoneSensor.__init__\<close>.\<close>

definition ADTPulseZoneSensor_init :: "site \<Rightarrow> int \<Rightarrow> event list \<times> (error + ADTPulseZoneSensor)" where
  "ADTPulseZoneSensor_init s zid =
     (case get_my_zone s zid of
        Inl e \<Rightarrow> ([Log DEBUG], Inl e)
      | Inr z \<Rightarrow>
          (case determine_device_class z of
             (l, Inl e) \<Rightarrow> (Log DEBUG # l, Inl e)
           | (l, Inr d) \<Rightarrow>
               (Log DEBUG # l @ [Log DEBUG],
                Inr \<lparr>sensor_site = s, sensor_zone_id = zid, sensor_my_zone = z,
                     sensor_device_class = d\<rparr>)))"

text \<open>\<^verbatim>\<open>is_on\<close>, with \<^verbatim>\<open>STATE_OK\<close> of the client library as \<open>state_ok\<close>.\<close>

definition ADTPulseZoneSensor_is_on :: "string \<Rightarrow> ADTPulseZoneSensor \<Rightarrow> bool" where
  "ADTPulseZoneSensor_is_on state_ok e = (\<not> zone_state (sensor_my_zone e) = state_ok)"

text \<open>\<^verbatim>\<open>ADTPulseZoneSensor.icon\<close>, with the log record of its first branch.\<close>

definition ADTPulseZoneSensor_icon :: "string \<Rightarrow> ADTPulseZoneSensor \<Rightarrow> event list \<times> string" where
  "ADTPulseZoneSensor_icon state_ok e =
     (case map_of ADT_SENSOR_ICON_MAP (sensor_device_class e) of
        None \<Rightarrow> ([Log ERROR], ''mdi:alert-octogram'')
      | Some icons \<Rightarrow>
          if ADTPulseZoneSensor_is_on state_ok e then ([], fst icons) else ([], snd icons))"

text \<open>
  \<^verbatim>\<open>ADTPulseGatewaySensor.__init__\<close>: \<^verbatim>\<open>service.sites[0]\<close> raises
  \<^verbatim>\<open>IndexError\<close> on an empty list, before the log record is written.
\<close>

definition ADTPulseGatewaySensor_init :: "service \<Rightarrow> event list \<times> (error + ADTPulseGatewaySensor)" where
  "ADTPulseGatewaySensor_init svc =
     (case sites svc of
        [] \<Rightarrow> ([], Inl IndexError)
      | s0 # _ \<Rightarrow>
          ([Log DEBUG],
           Inr \<lparr>gateway_service = svc, gateway_device_class = CONNECTIVITY,
                gateway_name = site_name s0 @ '' Pulse Gateway Status''\<rparr>))"

definition ADTPulseGatewaySensor_is_on :: "ADTPulseGatewaySensor \<Rightarrow> bool" where
  "ADTPulseGatewaySensor_is_on g = gateway_online (gateway_service g)"

definition ADTPulseGatewaySensor_unique_id :: "ADTPulseGatewaySensor \<Rightarrow> error + string" where
  "ADTPulseGatewaySensor_unique_id g =
     (case sites (gateway_service g) of
        [] \<Rightarrow> Inl IndexError
      | s0 # _ \<Rightarrow> Inr (''adt_pulse_gateway_'' @ site_id s0))"

definition ADTPulseGatewaySensor_icon :: "ADTPulseGatewaySensor \<Rightarrow> string" where
  "ADTPulseGatewaySensor_icon g =
     (if ADTPulseGatewaySensor_is_on g then ''mdi:lan-connect'' else ''mdi:lan-disconnect'')"

text \<open>
  The list comprehension of the sensor platform's setup: the zone sensors of a site,
  for the keys of its dictionary in order; the first constructor that raises ends it.
\<close>

fun zone_entities :: "site \<Rightarrow> int list \<Rightarrow> event list \<times> (error + ADTPulseZoneSensor list)" where
  "zone_entities s [] = ([], Inr [])"
| "zone_entities s (zid # zids) =
     (case ADTPulseZoneSensor_init s zid of
        (l, Inl e) \<Rightarrow> (l, Inl e)
      | (l, Inr x) \<Rightarrow>
          (case zone_entities s zids of
             (ls, Inl e) \<Rightarrow> (l @ ls, Inl e)
           | (ls, Inr xs) \<Rightarrow> (l @ ls, Inr (x # xs))))"

text \<open>
  The truth value of \<^verbatim>\<open>site.zones_as_dict\<close> where the read returns: false for
  \<^verbatim>\<open>None\<close> and for the empty dictionary.
\<close>

definition has_zones :: "site \<Rightarrow> bool" where
  "has_zones s =
     (case zones_as_dict s of
        Inl e \<Rightarrow> False
      | Inr None \<Rightarrow> False
      | Inr (Some zs) \<Rightarrow> zs \<noteq> [])"

text \<open>\<^verbatim>\<open>site.zones_as_dict.keys()\<close>, read only where \<open>has_zones\<close> holds.\<close>

definition zone_keys :: "site \<Rightarrow> int list" where
  "zone_keys s =
     (case zones_as_dict s of
        Inl e \<Rightarrow> []
      | Inr None \<Rightarrow> []
      | Inr (Some zs) \<Rightarrow> map fst zs)"

text \<open>
  The loop \<^verbatim>\<open>for site in adt_service.sites\<close>. An exception of the read in
  \<^verbatim>\<open>if not site.zones_as_dict\<close> leaves the setup; where the read returns
  \<^verbatim>\<open>None\<close> or the empty dictionary, the error record is written and the loop
  goes on. Every element of the list is a \<open>site\<close>, so the \<^verbatim>\<open>isinstance\<close> check
  never raises.
\<close>

fun setup_sites :: "service \<Rightarrow> site list \<Rightarrow> event list \<times> error option" where
  "setup_sites svc [] = ([], None)"
| "setup_sites svc (s # ss) =
     (case zones_as_dict s of
        Inl e \<Rightarrow> ([], Some e)
      | Inr zones \<Rightarrow>
          if \<not> has_zones s then
            (case setup_sites svc ss of (ls, r) \<Rightarrow> (Log ERROR # ls, r))
          else
            (case zone_entities s (zone_keys s) of
               (l, Inl e) \<Rightarrow> (l, Some e)
             | (l, Inr entities) \<Rightarrow>
                 (case ADTPulseGatewaySensor_init svc of
                    (lg, Inl e) \<Rightarrow> (l @ [AddEntities (map ZoneEntity entities)] @ lg, Some e)
                  | (lg, Inr g) \<Rightarrow>
                      (case setup_sites svc ss of
                         (ls, r) \<Rightarrow>
                           (l @ [AddEntities (map ZoneEntity entities)] @ lg
                              @ [AddEntities [GatewayEntity g]] @ ls, r)))))"

text \<open>\<^verbatim>\<open>async_setup_entry\<close> of the sensor platform.\<close>

definition sensor_async_setup_entry :: "coordinator \<Rightarrow> event list \<times> error option" where
  "sensor_async_setup_entry coord =
     (case adtpulse coord of
        None \<Rightarrow> ([Log ERROR], None)
      | Some adt_service \<Rightarrow>
          if sites adt_service = [] then ([Log ERROR], None)
          else setup_sites adt_service (sites adt_service))"

text \<open>The entities handed to \<^verbatim>\<open>async_add_entities\<close> by a run, in order.\<close>

fun added_entities :: "event list \<Rightarrow> entity list" where
  "added_entities [] = []"
| "added_entities (AddEntities es # evs) = es @ added_entities evs"
| "added_entities (_ # evs) = added_entities evs"

fun zone_sensors :: "entity list \<Rightarrow> ADTPulseZoneSensor list" where
  "zone_sensors [] = []"
| "zone_sensors (ZoneEntity x # es) = x # zone_sensors es"
| "zone_sensors (_ # es) = zone_sensors es"

fun gateway_sensors :: "entity list \<Rightarrow> ADTPulseGatewaySensor list" where
  "gateway_sensors [] = []"
| "gateway_sensors (GatewayEntity g # es) = g # gateway_sensors es"
| "gateway_sensors (_ # es) = gateway_sensors es"

subsection \<open>The specification's wording, for comparison\<close>

text \<open>
  The specification says that a door is refined to a window when the display name
  contains the substring "window", case-insensitive. Lower-casing is ASCII's.
\<close>

definition ascii_lower :: "char \<Rightarrow> char" where
  "ascii_lower ch =
     (let n = (of_char ch :: nat) in if 65 \<le> n \<and> n \<le> 90 then char_of (n + 32) else ch)"

definition contains_window_ignoring_case :: "string \<Rightarrow> bool" where
  "contains_window_ignoring_case name = sublist ''window'' (map ascii_lower name)"

text \<open>
  The specification says that classification scans in the priority order of the table
  and takes the first table entry whose tag is present in the zone's tag set.
\<close>

definition first_table_entry_present :: "string list \<Rightarrow> device_class option" where
  "first_table_entry_present tags =
     map_option snd (find (\<lambda>(tag, d). tag \<in> set tags) ADT_DEVICE_CLASS_TAG_MAP)"

subsection \<open>Sample data\<close>

text \<open>An assignment of the vendor's status constants, pairwise different.\<close>

definition pulse_consts :: adt_alarm_consts where
  "pulse_consts =
     \<lparr>ADT_ALARM_ARMING = ''arming'', ADT_ALARM_AWAY = ''away'',
      ADT_ALARM_DISARMING = ''disarming'', ADT_ALARM_HOME = ''stay'',
      ADT_ALARM_OFF = ''off'', ADT_ALARM_UNKNOWN = ''unknown''\<rparr>"

text \<open>A site with a door sensor and a motion sensor, and its panel, by status.\<close>

definition home_site :: "string \<Rightarrow> site" where
  "home_site st =
     \<lparr>site_id = ''1001'', site_name = ''Home'', site_status = st,
      zones_as_dict = Inr (Some
        [(1, \<lparr>zone_name = ''Front Door'', zone_tags = [''sensor'', ''doorWindow''],
              zone_state = ''OK''\<rparr>),
         (2, \<lparr>zone_name = ''Hall Motion'', zone_tags = [''sensor'', ''motion''],
              zone_state = ''Motion''\<rparr>)])\<rparr>"

definition home_panel :: "string \<Rightarrow> ADTPulseAlarm" where
  "home_panel st = \<lparr>alarm_name = ''adt_home'', alarm_site = home_site st\<rparr>"

text \<open>A site whose only zone carries no tag of the table.\<close>

definition cabin_site :: site where
  "cabin_site =
     \<lparr>site_id = ''1002'', site_name = ''Cabin'', site_status = ''off'',
      zones_as_dict = Inr (Some
        [(1, \<lparr>zone_name = ''Keypad'', zone_tags = [''sensor'', ''keypad''],
              zone_state = ''OK''\<rparr>)])\<rparr>"

text \<open>A site with a smoke sensor.\<close>

definition lake_site :: site where
  "lake_site =
     \<lparr>site_id = ''1003'', site_name = ''Lake'', site_status = ''off'',
      zones_as_dict = Inr (Some
        [(7, \<lparr>zone_name = ''Kitchen Smoke'', zone_tags = [''sensor'', ''smoke''],
              zone_state = ''OK''\<rparr>)])\<rparr>"

text \<open>A site whose only zone has a tag of the table but not the tag "sensor".\<close>

definition porch_site :: site where
  "porch_site =
     \<lparr>site_id = ''1005'', site_name = ''Porch'', site_status = ''off'',
      zones_as_dict = Inr (Some
        [(4, \<lparr>zone_name = ''Porch Motion'', zone_tags = [''motion''],
              zone_state = ''OK''\<rparr>)])\<rparr>"

text \<open>
  A site without zones, as the client library presents it: the read of its zone
  dictionary raises \<^verbatim>\<open>RuntimeError\<close>.
\<close>

definition shed_site :: site where
  "shed_site =
     \<lparr>site_id = ''1004'', site_name = ''Shed'', site_status = ''off'',
      zones_as_dict = Inl RuntimeError\<rparr>"

definition service_of :: "site list \<Rightarrow> service" where
  "service_of ss = \<lparr>sites = ss, gateway_online = True\<rparr>"

definition coordinator_of :: "site list \<Rightarrow> coordinator" where
  "coordinator_of ss = \<lparr>adtpulse = Some (service_of ss)\<rparr>"

text \<open>
  An outside world that counts the operations awaited and answers each with \<open>b\<close>.
\<close>

definition answering :: "bool \<Rightarrow> site \<Rightarrow> site_call \<Rightarrow> nat \<Rightarrow> bool \<times> nat" where
  "answering b s call w = (b, Suc w)"

text \<open>A zone sensor on the hall's motion zone, by zone state, and a gateway sensor.\<close>

definition hall_motion_sensor :: "string \<Rightarrow> ADTPulseZoneSensor" where
  "hall_motion_sensor st =
     \<lparr>sensor_site = home_site ''off'', sensor_zone_id = 2,
      sensor_my_zone = \<lparr>zone_name = ''Hall Motion'', zone_tags = [''sensor'', ''motion''],
                        zone_state = st\<rparr>,
      sensor_device_class = MOTION\<rparr>"

definition lake_gateway :: "bool \<Rightarrow> ADTPulseGatewaySensor" where
  "lake_gateway online =
     \<lparr>gateway_service = \<lparr>sites = [lake_site], gateway_online = online\<rparr>,
      gateway_device_class = CONNECTIVITY,
      gateway_name = ''Lake Pulse Gateway Status''\<rparr>"

section \<open>The alarm control panel\<close>

text \<open>
  C1. When the six vendor status constants are pairwise different, the panel's state is
  the platform state that the table pairs with the site's status: arming, armed away,
  disarming, armed home and disarmed for the five statuses of the vocabulary. For the
  vendor's unknown status, and for a status that is no key of the table, the state is
  \<open>None\<close>.
\<close>

theorem alarm_state_mapping:
  assumes "distinct [ADT_ALARM_ARMING c, ADT_ALARM_AWAY c, ADT_ALARM_DISARMING c,
                     ADT_ALARM_HOME c, ADT_ALARM_OFF c, ADT_ALARM_UNKNOWN c]"
  shows "(site_status (alarm_site a) = ADT_ALARM_ARMING c \<longrightarrow>
            ADTPulseAlarm_state c a = Some STATE_ALARM_ARMING) \<and>
         (site_status (alarm_site a) = ADT_ALARM_AWAY c \<longrightarrow>
            ADTPulseAlarm_state c a = Some STATE_ALARM_ARMED_AWAY) \<and>
         (site_status (alarm_site a) = ADT_ALARM_DISARMING c \<longrightarrow>
            ADTPulseAlarm_state c a = Some STATE_ALARM_DISARMING) \<and>
         (site_status (alarm_site a) = ADT_ALARM_HOME c \<longrightarrow>
            ADTPulseAlarm_state c a = Some STATE_ALARM_ARMED_HOME) \<and>
         (site_status (alarm_site a) = ADT_ALARM_OFF c \<longrightarrow>
            ADTPulseAlarm_state c a = Some STATE_ALARM_DISARMED) \<and>
         (site_status (alarm_site a) = ADT_ALARM_UNKNOWN c \<longrightarrow>
            ADTPulseAlarm_state c a = None) \<and>
         (site_status (alarm_site a) \<notin>
            {ADT_ALARM_ARMING c, ADT_ALARM_AWAY c, ADT_ALARM_DISARMING c,
             ADT_ALARM_HOME c, ADT_ALARM_OFF c, ADT_ALARM_UNKNOWN c} \<longrightarrow>
            ADTPulseAlarm_state c a = None)"
  using assms by (auto simp: ADTPulseAlarm_state_def ALARM_MAP_def)

theorem alarm_state_mapping_witness:
  "ADTPulseAlarm_state pulse_consts (home_panel ''arming'') = Some STATE_ALARM_ARMING \<and>
   ADTPulseAlarm_state pulse_consts (home_panel ''away'') = Some STATE_ALARM_ARMED_AWAY \<and>
   ADTPulseAlarm_state pulse_consts (home_panel ''disarming'') = Some STATE_ALARM_DISARMING \<and>
   ADTPulseAlarm_state pulse_consts (home_panel ''stay'') = Some STATE_ALARM_ARMED_HOME \<and>
   ADTPulseAlarm_state pulse_consts (home_panel ''off'') = Some STATE_ALARM_DISARMED \<and>
   ADTPulseAlarm_state pulse_consts (home_panel ''unknown'') = None \<and>
   ADTPulseAlarm_state pulse_consts (home_panel ''triggered'') = None"
proof -
  have d: "distinct [ADT_ALARM_ARMING pulse_consts, ADT_ALARM_AWAY pulse_consts,
                     ADT_ALARM_DISARMING pulse_consts, ADT_ALARM_HOME pulse_consts,
                     ADT_ALARM_OFF pulse_consts, ADT_ALARM_UNKNOWN pulse_consts]"
    by (simp add: pulse_consts_def)
  show ?thesis
    using alarm_state_mapping [OF d, of "home_panel ''arming''"]
      alarm_state_mapping [OF d, of "home_panel ''away''"]
      alarm_state_mapping [OF d, of "home_panel ''disarming''"]
      alarm_state_mapping [OF d, of "home_panel ''stay''"]
      alarm_state_mapping [OF d, of "home_panel ''off''"]
      alarm_state_mapping [OF d, of "home_panel ''unknown''"]
      alarm_state_mapping [OF d, of "home_panel ''triggered''"]
    by (simp add: pulse_consts_def home_panel_def home_site_def)
qed

text \<open>
  C5. For any pending site operation, hence for each of disarm, arm home, arm away and
  force arm: when the awaited operation returns true, the events are the debug record,
  the await and one state-refresh notification; when it returns false, they are the
  debug record, the await and one warning record, with no notification. In both cases
  the operation has run once on the outside world (no retry) and the function returns
  normally (its result holds no exception).
\<close>

theorem perform_alarm_action_notifies:
  "(fst (run (alarm_site a) call w) \<longrightarrow>
      snd (perform_alarm_action run a call action w) =
        [Log DEBUG, Awaited (site_id (alarm_site a)) call True, WriteHAState] \<and>
      count_list (snd (perform_alarm_action run a call action w)) WriteHAState = 1) \<and>
   (\<not> fst (run (alarm_site a) call w) \<longrightarrow>
      snd (perform_alarm_action run a call action w) =
        [Log DEBUG, Awaited (site_id (alarm_site a)) call False, Log WARNING] \<and>
      count_list (snd (perform_alarm_action run a call action w)) WriteHAState = 0) \<and>
   fst (perform_alarm_action run a call action w) = snd (run (alarm_site a) call w)"
  by (simp add: perform_alarm_action_def Let_def split: prod.splits)

theorem perform_alarm_action_notifies_witness:
  "perform_alarm_action (answering True) (home_panel ''off'') async_arm_home ''arm home'' 0 =
     (1, [Log DEBUG, Awaited ''1001'' async_arm_home True, WriteHAState]) \<and>
   perform_alarm_action (answering False) (home_panel ''off'') async_arm_home ''arm home'' 0 =
     (1, [Log DEBUG, Awaited ''1001'' async_arm_home False, Log WARNING])"
  using perform_alarm_action_notifies
      [of "answering True" "home_panel ''off''" async_arm_home 0 "''arm home''"]
    perform_alarm_action_notifies
      [of "answering False" "home_panel ''off''" async_arm_home 0 "''arm home''"]
  by (simp add: answering_def home_panel_def home_site_def prod_eq_iff)

text \<open>
  C7. Each of the four commands awaits exactly the matching operation of the panel's own
  site: disarm the site's disarm, arm home its arm-home, arm away its arm-away without
  the force option, and custom bypass its arm-away with \<^verbatim>\<open>force_arm=True\<close>. The
  report (notification or warning) follows the await in the events and is chosen by the
  value the operation returned, and the outside world is the one the operation left.
\<close>

theorem alarm_commands_forwarded:
  "async_alarm_disarm run a w =
     (let (r, w') = run (alarm_site a) async_disarm w
      in (w', [Log DEBUG, Awaited (site_id (alarm_site a)) async_disarm r,
               if r then WriteHAState else Log WARNING])) \<and>
   async_alarm_arm_home run a w =
     (let (r, w') = run (alarm_site a) async_arm_home w
      in (w', [Log DEBUG, Awaited (site_id (alarm_site a)) async_arm_home r,
               if r then WriteHAState else Log WARNING])) \<and>
   async_alarm_arm_away run a w =
     (let (r, w') = run (alarm_site a) (async_arm_away None) w
      in (w', [Log DEBUG, Awaited (site_id (alarm_site a)) (async_arm_away None) r,
               if r then WriteHAState else Log WARNING])) \<and>
   async_alarm_arm_custom_bypass run a w =
     (let (r, w') = run (alarm_site a) (async_arm_away (Some True)) w
      in (w', [Log DEBUG, Awaited (site_id (alarm_site a)) (async_arm_away (Some True)) r,
               if r then WriteHAState else Log WARNING]))"
  by (simp add: async_alarm_disarm_def async_alarm_arm_home_def async_alarm_arm_away_def
        async_alarm_arm_custom_bypass_def perform_alarm_action_def Let_def split: prod.splits)

section \<open>Icons\<close>

text \<open>
  C6. For a zone sensor whose classification is in the icon table, the icon is the first
  icon of the classification's pair when the sensor is on (tripped) and the second when
  it is off. The gateway sensor's icon is the connected icon when the gateway is online
  and the disconnected icon when it is offline.
\<close>

theorem icon_selection:
  assumes "map_of ADT_SENSOR_ICON_MAP (sensor_device_class e) = Some (active, inactive)"
  shows "snd (ADTPulseZoneSensor_icon state_ok e) =
           (if ADTPulseZoneSensor_is_on state_ok e then active else inactive) \<and>
         ADTPulseGatewaySensor_icon g =
           (if gateway_online (gateway_service g) then ''mdi:lan-connect''
            else ''mdi:lan-disconnect'')"
  using assms
  by (simp add: ADTPulseZoneSensor_icon_def ADTPulseGatewaySensor_icon_def
        ADTPulseGatewaySensor_is_on_def)

theorem icon_selection_witness:
  "snd (ADTPulseZoneSensor_icon ''OK'' (hall_motion_sensor ''Motion'')) = ''mdi:run-fast'' \<and>
   snd (ADTPulseZoneSensor_icon ''OK'' (hall_motion_sensor ''OK'')) = ''mdi:motion-sensor'' \<and>
   ADTPulseGatewaySensor_icon (lake_gateway True) = ''mdi:lan-connect'' \<and>
   ADTPulseGatewaySensor_icon (lake_gateway False) = ''mdi:lan-disconnect''"
proof -
  have m: "map_of ADT_SENSOR_ICON_MAP (sensor_device_class (hall_motion_sensor st)) =
             Some (''mdi:run-fast'', ''mdi:motion-sensor'')" for st
    by (simp add: ADT_SENSOR_ICON_MAP_def hall_motion_sensor_def)
  show ?thesis
    using icon_selection [OF m, of "''OK''" "''Motion''" "lake_gateway True"]
      icon_selection [OF m, of "''OK''" "''OK''" "lake_gateway False"]
    by (simp add: ADTPulseZoneSensor_is_on_def hall_motion_sensor_def lake_gateway_def)
qed

section \<open>Sensor classification\<close>

subsection \<open>The scan of the tags\<close>

lemma scan_tags_skip:
  "\<forall>u\<in>set pre. map_of ADT_DEVICE_CLASS_TAG_MAP u = None \<Longrightarrow> scan_tags (pre @ rest) = scan_tags rest"
  by (induction pre) simp_all

lemma scan_tags_None:
  "scan_tags tags = None \<longleftrightarrow> (\<forall>t\<in>set tags. map_of ADT_DEVICE_CLASS_TAG_MAP t = None)"
  by (induction tags) (auto split: option.splits)

lemma sensor_not_key: "map_of ADT_DEVICE_CLASS_TAG_MAP ''sensor'' = None"
  by (simp add: ADT_DEVICE_CLASS_TAG_MAP_def)

lemma doorWindow_key: "map_of ADT_DEVICE_CLASS_TAG_MAP ''doorWindow'' = Some DOOR"
  by (simp add: ADT_DEVICE_CLASS_TAG_MAP_def)

lemma unclassified_raises:
  "''sensor'' \<notin> set (zone_tags z) \<or> (\<forall>t\<in>set (zone_tags z). map_of ADT_DEVICE_CLASS_TAG_MAP t = None)
     \<Longrightarrow> determine_device_class z = ([Log WARNING], Inl ValueError)"
  using scan_tags_None [of "zone_tags z"]
  by (auto simp: determine_device_class_def Let_def)

lemma init_classified:
  "ADTPulseZoneSensor_init s zid = (l, Inr e) \<Longrightarrow>
     snd (determine_device_class (sensor_my_zone e)) = Inr (sensor_device_class e)"
  by (auto simp: ADTPulseZoneSensor_init_def split: sum.splits prod.splits)

lemma zone_entities_classified:
  "zone_entities s zids = (l, Inr xs) \<Longrightarrow> e \<in> set xs \<Longrightarrow>
     snd (determine_device_class (sensor_my_zone e)) = Inr (sensor_device_class e)"
proof (induction zids arbitrary: l xs)
  case Nil
  then show ?case by simp
next
  case (Cons zid zids)
  then show ?case
    by (auto split: sum.splits prod.splits dest: init_classified)
qed

text \<open>
  C2, as the code has it. For a zone that carries the tag "sensor" and whose first tag
  of the table, in the order of its tags, is "doorWindow", the classification is window
  exactly when the display name contains "Window" or "window", and door otherwise. The
  test is for these two spellings, not case-insensitive.
\<close>

theorem window_refinement:
  assumes "''sensor'' \<in> set (zone_tags z)"
    and "zone_tags z = pre @ ''doorWindow'' # post"
    and "\<forall>t\<in>set pre. map_of ADT_DEVICE_CLASS_TAG_MAP t = None"
  shows "snd (determine_device_class z) =
           Inr (if sublist ''Window'' (zone_name z) \<or> sublist ''window'' (zone_name z)
                then WINDOW else DOOR)"
proof -
  have "scan_tags (zone_tags z) = Some DOOR"
    using assms(2,3) by (simp add: scan_tags_skip doorWindow_key)
  with assms(1) show ?thesis
    by (simp add: determine_device_class_def)
qed

theorem window_refinement_witness:
  "snd (determine_device_class
          \<lparr>zone_name = ''Back Window'', zone_tags = [''sensor'', ''doorWindow''],
           zone_state = ''OK''\<rparr>) = Inr WINDOW \<and>
   snd (determine_device_class
          \<lparr>zone_name = ''bedroom window 2'', zone_tags = [''sensor'', ''doorWindow''],
           zone_state = ''OK''\<rparr>) = Inr WINDOW \<and>
   snd (determine_device_class
          \<lparr>zone_name = ''Front Door'', zone_tags = [''sensor'', ''doorWindow''],
           zone_state = ''OK''\<rparr>) = Inr DOOR"
proof -
  have k: "\<forall>t\<in>set [''sensor'']. map_of ADT_DEVICE_CLASS_TAG_MAP t = None"
    by (simp add: sensor_not_key)
  have w1: "sublist ''Window'' ''Back Window''" by code_simp
  have w2: "sublist ''window'' ''bedroom window 2''" by code_simp
  have w3: "\<not> sublist ''Window'' ''Front Door''" "\<not> sublist ''window'' ''Front Door''"
    by code_simp+
  show ?thesis
    using window_refinement
        [of "\<lparr>zone_name = ''Back Window'', zone_tags = [''sensor'', ''doorWindow''],
              zone_state = ''OK''\<rparr>" "[''sensor'']" "[]"]
      window_refinement
        [of "\<lparr>zone_name = ''bedroom window 2'', zone_tags = [''sensor'', ''doorWindow''],
              zone_state = ''OK''\<rparr>" "[''sensor'']" "[]"]
      window_refinement
        [of "\<lparr>zone_name = ''Front Door'', zone_tags = [''sensor'', ''doorWindow''],
              zone_state = ''OK''\<rparr>" "[''sensor'']" "[]"]
      k w1 w2 w3
    by simp
qed

text \<open>
  C2, as stated, fails: the name "Kitchen WINDOW" contains "window" when case is
  ignored, and the zone is classified as a door.
\<close>

theorem window_uppercase_counterexample:
  "contains_window_ignoring_case ''Kitchen WINDOW'' \<and>
   snd (determine_device_class
          \<lparr>zone_name = ''Kitchen WINDOW'', zone_tags = [''sensor'', ''doorWindow''],
           zone_state = ''OK''\<rparr>) = Inr DOOR"
proof -
  have "contains_window_ignoring_case ''Kitchen WINDOW''" by code_simp
  moreover have "\<not> sublist ''Window'' ''Kitchen WINDOW''" "\<not> sublist ''window'' ''Kitchen WINDOW''"
    by code_simp+
  ultimately show ?thesis
    by (simp add: determine_device_class_def ADT_DEVICE_CLASS_TAG_MAP_def)
qed

text \<open>
  C3, as the code has it. For a zone that carries the tag "sensor", the classification
  is that of the first tag, in the order of the zone's own tags, that is a key of the
  table (a door being refined to a window by the name). The order of the table plays
  no part.
\<close>

theorem first_zone_tag_wins:
  assumes "''sensor'' \<in> set (zone_tags z)"
    and "zone_tags z = pre @ tag # post"
    and "\<forall>t\<in>set pre. map_of ADT_DEVICE_CLASS_TAG_MAP t = None"
    and "map_of ADT_DEVICE_CLASS_TAG_MAP tag = Some d"
  shows "snd (determine_device_class z) =
           Inr (if d = DOOR \<and> (sublist ''Window'' (zone_name z) \<or> sublist ''window'' (zone_name z))
                then WINDOW else d)"
proof -
  have "scan_tags (zone_tags z) = Some d"
    using assms(2,3,4) by (simp add: scan_tags_skip)
  with assms(1) show ?thesis
    by (simp add: determine_device_class_def)
qed

theorem first_zone_tag_wins_witness:
  "snd (determine_device_class
          \<lparr>zone_name = ''Hall'', zone_tags = [''sensor'', ''motion'', ''co''],
           zone_state = ''OK''\<rparr>) = Inr MOTION"
proof -
  have k: "\<forall>t\<in>set [''sensor'']. map_of ADT_DEVICE_CLASS_TAG_MAP t = None"
    by (simp add: sensor_not_key)
  have m: "map_of ADT_DEVICE_CLASS_TAG_MAP ''motion'' = Some MOTION"
    by (simp add: ADT_DEVICE_CLASS_TAG_MAP_def)
  show ?thesis
    using first_zone_tag_wins
        [of "\<lparr>zone_name = ''Hall'', zone_tags = [''sensor'', ''motion'', ''co''],
              zone_state = ''OK''\<rparr>" "[''sensor'']" "''motion''" "[''co'']" MOTION]
      k m
    by simp
qed

text \<open>
  C3, as stated, fails: for the tags sensor, motion, co the first entry of the table
  whose tag is present is co, and the zone is classified as motion; the same tags in
  the order sensor, co, motion give co.
\<close>

theorem tag_order_counterexample:
  "first_table_entry_present [''sensor'', ''motion'', ''co''] = Some CO \<and>
   snd (determine_device_class
          \<lparr>zone_name = ''Hall'', zone_tags = [''sensor'', ''motion'', ''co''],
           zone_state = ''OK''\<rparr>) = Inr MOTION \<and>
   set [''sensor'', ''motion'', ''co''] = set [''sensor'', ''co'', ''motion''] \<and>
   snd (determine_device_class
          \<lparr>zone_name = ''Hall'', zone_tags = [''sensor'', ''co'', ''motion''],
           zone_state = ''OK''\<rparr>) = Inr CO"
proof -
  have "first_table_entry_present [''sensor'', ''motion'', ''co''] = Some CO"
    by (simp add: first_table_entry_present_def ADT_DEVICE_CLASS_TAG_MAP_def)
  moreover have "set [''sensor'', ''motion'', ''co''] = set [''sensor'', ''co'', ''motion'']"
    by auto
  ultimately show ?thesis
    by (simp add: determine_device_class_def ADT_DEVICE_CLASS_TAG_MAP_def)
qed

subsection \<open>The loop over the sites\<close>

lemma gateway_sensors_append [simp]:
  "gateway_sensors (xs @ ys) = gateway_sensors xs @ gateway_sensors ys"
  by (induction xs rule: gateway_sensors.induct) simp_all

lemma added_entities_append [simp]:
  "added_entities (xs @ ys) = added_entities xs @ added_entities ys"
  by (induction xs rule: added_entities.induct) simp_all

lemma gateway_sensors_zone [simp]: "gateway_sensors (map ZoneEntity xs) = []"
  by (induction xs) simp_all

lemma init_no_add: "ADTPulseZoneSensor_init s zid = (l, r) \<Longrightarrow> added_entities l = []"
  by (auto simp: ADTPulseZoneSensor_init_def determine_device_class_def Let_def
           split: sum.splits option.splits if_splits)

lemma zone_entities_no_add: "zone_entities s zids = (l, r) \<Longrightarrow> added_entities l = []"
proof (induction zids arbitrary: l r)
  case Nil
  then show ?case by auto
next
  case (Cons zid zids)
  then show ?case
    by (auto split: prod.splits sum.splits dest: init_no_add)
qed

lemma gateway_init_no_add: "ADTPulseGatewaySensor_init svc = (l, r) \<Longrightarrow> added_entities l = []"
  by (auto simp: ADTPulseGatewaySensor_init_def split: list.splits)

lemma gateway_init_name:
  "ADTPulseGatewaySensor_init svc = (l, Inr g) \<Longrightarrow> sites svc = s0 # rest \<Longrightarrow>
     gateway_name g = site_name s0 @ '' Pulse Gateway Status'' \<and>
     ADTPulseGatewaySensor_unique_id g = Inr (''adt_pulse_gateway_'' @ site_id s0)"
  by (auto simp: ADTPulseGatewaySensor_init_def ADTPulseGatewaySensor_unique_id_def)

text \<open>One round of the loop, on a site with zones.\<close>

lemma setup_sites_step:
  assumes "has_zones s"
    and "zone_entities s (zone_keys s) = (l, Inr xs)"
    and "ADTPulseGatewaySensor_init svc = (lg, Inr g)"
  shows "added_entities (fst (setup_sites svc (s # ss))) =
           map ZoneEntity xs @ GatewayEntity g # added_entities (fst (setup_sites svc ss))"
    and "snd (setup_sites svc (s # ss)) = snd (setup_sites svc ss)"
  using assms zone_entities_no_add [OF assms(2)] gateway_init_no_add [OF assms(3)]
  by (auto simp: has_zones_def split: prod.splits sum.splits option.splits)

lemma setup_sites_step_zone_error:
  assumes "has_zones s"
    and "zone_entities s (zone_keys s) = (l, Inl e)"
  shows "added_entities (fst (setup_sites svc (s # ss))) = []"
    and "snd (setup_sites svc (s # ss)) = Some e"
  using assms zone_entities_no_add [OF assms(2)]
  by (auto simp: has_zones_def split: prod.splits sum.splits option.splits)

lemma setup_sites_step_gateway_error:
  assumes "has_zones s"
    and "zone_entities s (zone_keys s) = (l, Inr xs)"
    and "ADTPulseGatewaySensor_init svc = (lg, Inl e)"
  shows "added_entities (fst (setup_sites svc (s # ss))) = map ZoneEntity xs"
    and "snd (setup_sites svc (s # ss)) = Some e"
  using assms zone_entities_no_add [OF assms(2)] gateway_init_no_add [OF assms(3)]
  by (auto simp: has_zones_def split: prod.splits sum.splits option.splits)

text \<open>A site whose zone dictionary reads as \<^verbatim>\<open>None\<close> or as empty.\<close>

lemma setup_sites_skip:
  assumes "zones_as_dict s = Inr zones" and "\<not> has_zones s"
  shows "setup_sites svc (s # ss) = (Log ERROR # fst (setup_sites svc ss), snd (setup_sites svc ss))"
  using assms by (auto split: prod.splits)

text \<open>A site whose zone dictionary cannot be read.\<close>

lemma setup_sites_read_error:
  assumes "zones_as_dict s = Inl e"
  shows "setup_sites svc (s # ss) = ([], Some e)"
  using assms by simp

lemmas setup_sites_Nil = setup_sites.simps(1)

declare setup_sites.simps [simp del]

lemma setup_sites_cases:
  obtains (read_error) e where "zones_as_dict s = Inl e"
  | (skip) zones where "zones_as_dict s = Inr zones" "\<not> has_zones s"
  | (zone_error) l e where "has_zones s" "zone_entities s (zone_keys s) = (l, Inl e)"
  | (gateway_error) l xs lg e where "has_zones s" "zone_entities s (zone_keys s) = (l, Inr xs)"
      "ADTPulseGatewaySensor_init svc = (lg, Inl e)"
  | (added) l xs lg g where "has_zones s" "zone_entities s (zone_keys s) = (l, Inr xs)"
      "ADTPulseGatewaySensor_init svc = (lg, Inr g)"
proof (cases "has_zones s")
  case False
  then show ?thesis by (cases "zones_as_dict s") (auto intro: read_error skip)
next
  case True
  obtain l r where ze: "zone_entities s (zone_keys s) = (l, r)" by force
  obtain lg rg where gi: "ADTPulseGatewaySensor_init svc = (lg, rg)" by force
  show ?thesis
  proof (cases r)
    case (Inl e)
    with True ze show ?thesis by (auto intro: zone_error)
  next
    case (Inr xs)
    with True ze gi show ?thesis by (cases rg) (auto intro: gateway_error added)
  qed
qed

lemma setup_sites_classified:
  "ZoneEntity e \<in> set (added_entities (fst (setup_sites svc ss))) \<Longrightarrow>
     snd (determine_device_class (sensor_my_zone e)) = Inr (sensor_device_class e)"
proof (induction ss)
  case Nil
  then show ?case by (simp add: setup_sites_Nil)
next
  case (Cons s ss)
  show ?case
  proof (cases rule: setup_sites_cases [where s = s and svc = svc])
    case (read_error e)
    with Cons.prems show ?thesis by (simp add: setup_sites_read_error)
  next
    case (skip zones)
    with Cons show ?thesis by (simp add: setup_sites_skip)
  next
    case (zone_error l e)
    with Cons.prems show ?thesis by (simp add: setup_sites_step_zone_error)
  next
    case (gateway_error l xs lg e)
    with Cons.prems show ?thesis
      by (auto simp: setup_sites_step_gateway_error dest: zone_entities_classified)
  next
    case (added l xs lg g)
    with Cons show ?thesis
      by (auto simp: setup_sites_step dest: zone_entities_classified)
  qed
qed

lemma gateway_count:
  "snd (setup_sites svc ss) = None \<Longrightarrow>
     length (gateway_sensors (added_entities (fst (setup_sites svc ss)))) = length (filter has_zones ss)"
proof (induction ss)
  case Nil
  then show ?case by (simp add: setup_sites_Nil)
next
  case (Cons s ss)
  show ?case
  proof (cases rule: setup_sites_cases [where s = s and svc = svc])
    case (read_error e)
    with Cons.prems show ?thesis by (simp add: setup_sites_read_error)
  next
    case (skip zones)
    with Cons show ?thesis by (simp add: setup_sites_skip)
  next
    case (zone_error l e)
    with Cons.prems show ?thesis by (simp add: setup_sites_step_zone_error)
  next
    case (gateway_error l xs lg e)
    with Cons.prems show ?thesis by (simp add: setup_sites_step_gateway_error)
  next
    case (added l xs lg g)
    with Cons show ?thesis by (simp add: setup_sites_step)
  qed
qed

lemma gateway_same:
  "sites svc = s0 # rest \<Longrightarrow> g \<in> set (gateway_sensors (added_entities (fst (setup_sites svc ss)))) \<Longrightarrow>
     gateway_name g = site_name s0 @ '' Pulse Gateway Status'' \<and>
     ADTPulseGatewaySensor_unique_id g = Inr (''adt_pulse_gateway_'' @ site_id s0)"
proof (induction ss)
  case Nil
  then show ?case by (simp add: setup_sites_Nil)
next
  case (Cons s ss)
  show ?case
  proof (cases rule: setup_sites_cases [where s = s and svc = svc])
    case (read_error e)
    with Cons.prems show ?thesis by (simp add: setup_sites_read_error)
  next
    case (skip zones)
    with Cons show ?thesis by (simp add: setup_sites_skip)
  next
    case (zone_error l e)
    with Cons.prems show ?thesis by (simp add: setup_sites_step_zone_error)
  next
    case (gateway_error l xs lg e)
    with Cons.prems show ?thesis by (simp add: setup_sites_step_gateway_error)
  next
    case (added l xs lg g')
    with Cons show ?thesis
      by (auto simp: setup_sites_step dest: gateway_init_name)
  qed
qed

subsection \<open>Zones that are not classified\<close>

lemma zone_sensors_iff: "x \<in> set (zone_sensors es) \<longleftrightarrow> ZoneEntity x \<in> set es"
  by (induction es rule: zone_sensors.induct) auto

lemma sensor_async_setup_entry_classified:
  "x \<in> set (zone_sensors (added_entities (fst (sensor_async_setup_entry coord)))) \<Longrightarrow>
     snd (determine_device_class (sensor_my_zone x)) = Inr (sensor_device_class x)"
  by (auto simp: sensor_async_setup_entry_def zone_sensors_iff setup_sites_Nil
           split: option.splits if_splits dest: setup_sites_classified)

lemma init_unclassified:
  "determine_device_class z = ([Log WARNING], Inl ValueError) \<Longrightarrow> get_my_zone s zid = Inr z \<Longrightarrow>
     ADTPulseZoneSensor_init s zid = ([Log DEBUG, Log WARNING], Inl ValueError)"
  by (simp add: ADTPulseZoneSensor_init_def)

lemma unclassified_no_entity:
  assumes "determine_device_class z = ([Log WARNING], Inl ValueError)"
  shows "z \<notin> set (map sensor_my_zone
           (zone_sensors (added_entities (fst (sensor_async_setup_entry coord)))))"
proof
  assume "z \<in> set (map sensor_my_zone
            (zone_sensors (added_entities (fst (sensor_async_setup_entry coord)))))"
  then obtain x where "x \<in> set (zone_sensors (added_entities (fst (sensor_async_setup_entry coord))))"
    and "sensor_my_zone x = z"
    by auto
  then have "snd (determine_device_class z) = Inr (sensor_device_class x)"
    using sensor_async_setup_entry_classified by blast
  with assms show False by simp
qed

text \<open>
  C4. For a zone none of whose tags is a key of the classification table,
  \<^verbatim>\<open>_determine_device_class\<close> raises \<^verbatim>\<open>ValueError\<close>, so does the
  constructor of the zone sensor on a site that holds the zone, and no zone sensor
  handed to the platform by a run of the setup wraps that zone: no classification is
  substituted.
\<close>

theorem unknown_tags_raise:
  assumes "set (zone_tags z) \<inter> fst ` set ADT_DEVICE_CLASS_TAG_MAP = {}"
  shows "snd (determine_device_class z) = Inl ValueError \<and>
         (get_my_zone s zid = Inr z \<longrightarrow> snd (ADTPulseZoneSensor_init s zid) = Inl ValueError) \<and>
         z \<notin> set (map sensor_my_zone
                 (zone_sensors (added_entities (fst (sensor_async_setup_entry coord)))))"
proof -
  have "\<forall>t\<in>set (zone_tags z). map_of ADT_DEVICE_CLASS_TAG_MAP t = None"
    using assms by (auto simp: map_of_eq_None_iff)
  then have r: "determine_device_class z = ([Log WARNING], Inl ValueError)"
    by (simp add: unclassified_raises)
  show ?thesis
    using r init_unclassified [OF r, of s zid] unclassified_no_entity [OF r, of coord]
    by simp
qed

theorem unknown_tags_raise_witness:
  "snd (determine_device_class
          \<lparr>zone_name = ''Keypad'', zone_tags = [''sensor'', ''keypad''], zone_state = ''OK''\<rparr>) =
     Inl ValueError \<and>
   snd (ADTPulseZoneSensor_init cabin_site 1) = Inl ValueError \<and>
   map (zone_name \<circ> sensor_my_zone) (zone_sensors (added_entities
     (fst (sensor_async_setup_entry (coordinator_of [home_site ''off'', cabin_site]))))) =
     [''Front Door'', ''Hall Motion'']"
proof -
  let ?z = "\<lparr>zone_name = ''Keypad'', zone_tags = [''sensor'', ''keypad''], zone_state = ''OK''\<rparr>"
  have h: "set (zone_tags ?z) \<inter> fst ` set ADT_DEVICE_CLASS_TAG_MAP = {}"
    by (simp add: ADT_DEVICE_CLASS_TAG_MAP_def)
  have g: "get_my_zone cabin_site 1 = Inr ?z"
    by (simp add: get_my_zone_def cabin_site_def)
  have e: "map (zone_name \<circ> sensor_my_zone) (zone_sensors (added_entities
     (fst (sensor_async_setup_entry (coordinator_of [home_site ''off'', cabin_site]))))) =
     [''Front Door'', ''Hall Motion'']"
    by code_simp
  show ?thesis
    using unknown_tags_raise [OF h, of cabin_site 1 "coordinator_of [home_site ''off'', cabin_site]"] g e
    by simp
qed

text \<open>
  C9. For a zone whose tags lack "sensor", \<^verbatim>\<open>_determine_device_class\<close> raises
  \<^verbatim>\<open>ValueError\<close> whatever the other tags are, so does the constructor, and no zone
  sensor handed to the platform wraps that zone.
\<close>

theorem missing_sensor_tag_raises:
  assumes "''sensor'' \<notin> set (zone_tags z)"
  shows "snd (determine_device_class z) = Inl ValueError \<and>
         (get_my_zone s zid = Inr z \<longrightarrow> snd (ADTPulseZoneSensor_init s zid) = Inl ValueError) \<and>
         z \<notin> set (map sensor_my_zone
                 (zone_sensors (added_entities (fst (sensor_async_setup_entry coord)))))"
proof -
  have r: "determine_device_class z = ([Log WARNING], Inl ValueError)"
    using assms by (simp add: unclassified_raises)
  show ?thesis
    using r init_unclassified [OF r, of s zid] unclassified_no_entity [OF r, of coord]
    by simp
qed

theorem missing_sensor_tag_raises_witness:
  "map_of ADT_DEVICE_CLASS_TAG_MAP ''motion'' = Some MOTION \<and>
   snd (determine_device_class
          \<lparr>zone_name = ''Porch Motion'', zone_tags = [''motion''], zone_state = ''OK''\<rparr>) =
     Inl ValueError \<and>
   snd (ADTPulseZoneSensor_init porch_site 4) = Inl ValueError \<and>
   sensor_async_setup_entry (coordinator_of [porch_site]) =
     ([Log DEBUG, Log WARNING], Some ValueError)"
proof -
  let ?z = "\<lparr>zone_name = ''Porch Motion'', zone_tags = [''motion''], zone_state = ''OK''\<rparr>"
  have h: "''sensor'' \<notin> set (zone_tags ?z)"
    by simp
  have g: "get_my_zone porch_site 4 = Inr ?z"
    by (simp add: get_my_zone_def porch_site_def)
  have m: "map_of ADT_DEVICE_CLASS_TAG_MAP ''motion'' = Some MOTION"
    by (simp add: ADT_DEVICE_CLASS_TAG_MAP_def)
  have e: "sensor_async_setup_entry (coordinator_of [porch_site]) =
     ([Log DEBUG, Log WARNING], Some ValueError)"
    by code_simp
  show ?thesis
    using missing_sensor_tag_raises [OF h, of porch_site 4] g m e
    by simp
qed

section \<open>Platform setup\<close>

text \<open>
  With no sites, the setup of the alarm platform and the setup of the sensor platform
  each write one error record and return, handing over no entity.
\<close>

lemma setup_no_sites:
  assumes "adtpulse c = Some svc" and "sites svc = []"
  shows "alarm_async_setup_entry slugify (Some c) = ([Log ERROR], None)"
    and "sensor_async_setup_entry c = ([Log ERROR], None)"
  using assms by (simp_all add: alarm_async_setup_entry_def sensor_async_setup_entry_def)

text \<open>
  C8. The branch that writes an error record for a site without zones and goes on with
  the next site is taken only when the read of the site's zone dictionary returns
  \<^verbatim>\<open>None\<close> or the empty dictionary (\<open>setup_sites_skip\<close>). For a site without zones
  the client library raises \<^verbatim>\<open>RuntimeError\<close> at that read, and the branch is not
  reached. On the sites Home (two zones), Shed (no zones) and Lake (one zone), the setup
  of the sensor platform ends with \<^verbatim>\<open>RuntimeError\<close> at Shed: no error record is
  written, and the only zone sensors handed over are Home's, none for Lake.
\<close>

theorem setup_zoneless_site_raises:
  "snd (sensor_async_setup_entry (coordinator_of [home_site ''off'', shed_site, lake_site])) =
     Some RuntimeError \<and>
   count_list
     (fst (sensor_async_setup_entry (coordinator_of [home_site ''off'', shed_site, lake_site])))
     (Log ERROR) = 0 \<and>
   map (zone_name \<circ> sensor_my_zone) (zone_sensors (added_entities
     (fst (sensor_async_setup_entry (coordinator_of [home_site ''off'', shed_site, lake_site]))))) =
     [''Front Door'', ''Hall Motion''] \<and>
   map (zone_name \<circ> sensor_my_zone) (zone_sensors (added_entities
     (fst (sensor_async_setup_entry (coordinator_of [lake_site]))))) = [''Kitchen Smoke'']"
  by code_simp

text \<open>
  C10, as the code has it. When the setup of the sensor platform returns without an
  exception, it has handed over one gateway sensor per site with a non-empty zone
  dictionary, so as many gateway sensors as there are such sites. Each gateway sensor
  handed over has the name and the unique id made from the first site of the service.
\<close>

theorem gateway_sensor_per_site:
  assumes "adtpulse coord = Some svc"
  shows "(snd (sensor_async_setup_entry coord) = None \<longrightarrow>
            length (gateway_sensors (added_entities (fst (sensor_async_setup_entry coord)))) =
              length (filter has_zones (sites svc))) \<and>
         (sites svc = s0 # rest \<and>
          g \<in> set (gateway_sensors (added_entities (fst (sensor_async_setup_entry coord)))) \<longrightarrow>
            gateway_name g = site_name s0 @ '' Pulse Gateway Status'' \<and>
            ADTPulseGatewaySensor_unique_id g = Inr (''adt_pulse_gateway_'' @ site_id s0))"
proof (cases "sites svc")
  case Nil
  with assms show ?thesis by (simp add: sensor_async_setup_entry_def)
next
  case (Cons s1 ss1)
  with assms have run: "sensor_async_setup_entry coord = setup_sites svc (sites svc)"
    by (simp add: sensor_async_setup_entry_def)
  show ?thesis
    unfolding run using gateway_count [of svc "sites svc"] gateway_same [of svc s0 rest g "sites svc"]
    by blast
qed

theorem gateway_sensor_per_site_witness:
  "length (filter has_zones [home_site ''off'', lake_site]) = 2 \<and>
   snd (sensor_async_setup_entry (coordinator_of [home_site ''off'', lake_site])) = None \<and>
   map gateway_name (gateway_sensors (added_entities
     (fst (sensor_async_setup_entry (coordinator_of [home_site ''off'', lake_site]))))) =
     [''Home Pulse Gateway Status'', ''Home Pulse Gateway Status''] \<and>
   map ADTPulseGatewaySensor_unique_id (gateway_sensors (added_entities
     (fst (sensor_async_setup_entry (coordinator_of [home_site ''off'', lake_site]))))) =
     [Inr ''adt_pulse_gateway_1001'', Inr ''adt_pulse_gateway_1001'']"
proof -
  let ?c = "coordinator_of [home_site ''off'', lake_site]"
  let ?svc = "service_of [home_site ''off'', lake_site]"
  let ?gs = "gateway_sensors (added_entities (fst (sensor_async_setup_entry ?c)))"
  let ?g = "\<lparr>gateway_service = ?svc, gateway_device_class = CONNECTIVITY,
            gateway_name = ''Home Pulse Gateway Status''\<rparr>"
  have a: "adtpulse ?c = Some ?svc" by (simp add: coordinator_of_def)
  have ok: "snd (sensor_async_setup_entry ?c) = None" by code_simp
  have n: "length (filter has_zones [home_site ''off'', lake_site]) = 2" by code_simp
  have s: "sites ?svc = home_site ''off'' # [lake_site]" by (simp add: service_of_def)
  have gs: "?gs = [?g, ?g]" by code_simp
  have i: "site_id (home_site ''off'') = ''1001''" "site_name (home_site ''off'') = ''Home''"
    by (simp_all add: home_site_def)
  have "length ?gs = 2"
    using gateway_sensor_per_site [OF a] ok n s by simp
  moreover have "gateway_name ?g = ''Home Pulse Gateway Status'' \<and>
        ADTPulseGatewaySensor_unique_id ?g = Inr ''adt_pulse_gateway_1001''"
    using gateway_sensor_per_site [OF a, of "home_site ''off''" "[lake_site]" ?g] s gs i
    by simp
  ultimately show ?thesis using n ok gs by simp
qed

text \<open>
  C10, as stated, fails: of two sites with zones, the second holding a zone that is not
  classified, only the first gets a gateway sensor.
\<close>

theorem gateway_sensor_count_counterexample:
  "length (filter has_zones [home_site ''off'', cabin_site]) = 2 \<and>
   length (gateway_sensors (added_entities
     (fst (sensor_async_setup_entry (coordinator_of [home_site ''off'', cabin_site]))))) = 1 \<and>
   snd (sensor_async_setup_entry (coordinator_of [home_site ''off'', cabin_site])) = Some ValueError"
  by code_simp

end
